theory Spec2Isabelle
  imports Complex_Main "HOL-Library.Word"
begin

section \<open>JavaScript values used by the conversion worker and the client\<close>

text \<open>
  A JavaScript \<open>number\<close> is modelled as an exact rational: the arithmetic of the worker is one
  division by 100 and two comparisons, and the inputs the client can produce (a slider with
  integer steps for the tolerance) are represented exactly. \<open>NaN\<close> and the infinities are not
  part of the model. A value that may be \<open>undefined\<close> is an \<open>option\<close>.
\<close>

type_synonym number = rat

type_synonym bytes = "8 word list"

text \<open>\<open>a || d\<close> on an optional number: \<open>undefined\<close> and \<open>0\<close> are falsy.\<close>

definition or_number :: "number option \<Rightarrow> number \<Rightarrow> number" where
  "or_number a d = (case a of None \<Rightarrow> d | Some x \<Rightarrow> if x = 0 then d else x)"

text \<open>\<open>a || d\<close> on an optional string: \<open>undefined\<close> and the empty string are falsy.\<close>

definition or_string :: "string option \<Rightarrow> string \<Rightarrow> string" where
  "or_string a d = (case a of None \<Rightarrow> d | Some x \<Rightarrow> if x = [] then d else x)"

subsection \<open>Digits: \<open>Number.prototype.toString(radix)\<close> on a non-negative integer\<close>

definition digit_char :: "nat \<Rightarrow> char" where
  "digit_char d = ''0123456789abcdef'' ! (d mod 16)"

function to_radix :: "int \<Rightarrow> int \<Rightarrow> string" where
  "to_radix b n = (if b < 2 \<or> n < b then [digit_char (nat n)]
                   else to_radix b (n div b) @ [digit_char (nat (n mod b))])"
  by pat_completeness auto
termination
proof (relation "measure (\<lambda>(b, n). nat n)")
  fix b n :: int
  assume "\<not> (b < 2 \<or> n < b)"
  then have "n div b < n" by (simp add: int_div_less_self)
  moreover from \<open>\<not> (b < 2 \<or> n < b)\<close> have "0 < n" by simp
  ultimately show "((b, n div b), (b, n)) \<in> measure (\<lambda>(b, n). nat n)" by simp
qed simp

declare to_radix.simps [simp del]

text \<open>\<open>s.padStart(n, c)\<close> for a one-character filler.\<close>

definition padStart :: "nat \<Rightarrow> char \<Rightarrow> string \<Rightarrow> string" where
  "padStart n c s = replicate (n - length s) c @ s"

subsection \<open>\<open>parseInt(s, 16)\<close>\<close>

definition hex_chars :: "char list" where
  "hex_chars = ''abcdef'' @ ''ABCDEF'' @ ''0123456789''"

definition hex_value :: "char \<Rightarrow> nat" where
  "hex_value c =
     (if c \<in> set ''0123456789'' then of_char c - 48
      else if c \<in> set ''abcdef'' then of_char c - 87
      else if c \<in> set ''ABCDEF'' then of_char c - 55
      else 0)"

text \<open>
  \<open>parseInt(s, 16)\<close> reads the longest prefix of hexadecimal digits. On a string with no such
  prefix JavaScript gives \<open>NaN\<close>; the worker only calls it on the two-digit groups captured by
  the colour pattern (lemma \<open>exec_hex_rx\<close> below), so that case is given the value 0 here.
\<close>

definition parseInt16 :: "string \<Rightarrow> nat" where
  "parseInt16 s = foldl (\<lambda>acc c. 16 * acc + hex_value c) 0 (takeWhile (\<lambda>c. c \<in> set hex_chars) s)"

subsection \<open>Regular expressions: the fragment used by \<open>hexToRgbObj\<close>\<close>

text \<open>
  A backtracking matcher in the list-of-successes style. A matcher state is the list of
  groups captured so far and the input still to be read; \<open>run\<close> lists the states reachable
  by matching the expression, in the priority order of the ECMAScript backtracking semantics
  (a greedy \<open>?\<close> tries its operand before skipping it). A character class is the list of its
  members, with the ranges and the \<open>i\<close> flag expanded.
\<close>

datatype regex =
    Eps
  | Lit char
  | Cls "char list"
  | Opt regex
  | Seq regex regex
  | Group regex

fun run :: "regex \<Rightarrow> string list \<times> string \<Rightarrow> (string list \<times> string) list" where
  "run Eps st = [st]"
| "run (Lit a) (caps, s) =
     (case s of [] \<Rightarrow> [] | x # xs \<Rightarrow> if x = a then [(caps, xs)] else [])"
| "run (Cls members) (caps, s) =
     (case s of [] \<Rightarrow> [] | x # xs \<Rightarrow> if x \<in> set members then [(caps, xs)] else [])"
| "run (Opt r) st = run r st @ [st]"
| "run (Seq r1 r2) st = concat (map (run r2) (run r1 st))"
| "run (Group r) (caps, s) =
     map (\<lambda>(caps', s'). (caps' @ [take (length s - length s') s], s')) (run r (caps, s))"

text \<open>\<open>r{n}\<close>\<close>

fun repeat_rx :: "nat \<Rightarrow> regex \<Rightarrow> regex" where
  "repeat_rx 0 r = Eps"
| "repeat_rx (Suc 0) r = r"
| "repeat_rx (Suc (Suc n)) r = Seq r (repeat_rx (Suc n) r)"

text \<open>
  \<open>/^r$/.exec(s)\<close> without the \<open>m\<close> and \<open>g\<close> flags: the match starts at the first character,
  must end at the end of the input, and the call keeps no state between calls. The result is
  the list of captured groups of the first successful alternative, or \<open>None\<close> for \<open>null\<close>.
\<close>

definition exec_anchored :: "regex \<Rightarrow> string \<Rightarrow> string list option" where
  "exec_anchored r s =
     (case filter (\<lambda>(caps, rest). rest = []) (run r ([], s)) of
        [] \<Rightarrow> None
      | (caps, rest) # others \<Rightarrow> Some caps)"

section \<open>The conversion worker: \<open>ffmpeg-worker.js\<close>\<close>

subsection \<open>\<open>hexToRgbObj\<close>\<close>

record rgb =
  r :: nat
  g :: nat
  b :: nat

text \<open>\<open>/^#?([a-f\d]{2})([a-f\d]{2})([a-f\d]{2})$/i\<close>\<close>

definition hex_pair :: regex where
  "hex_pair = Group (repeat_rx 2 (Cls hex_chars))"

definition hex_rx :: regex where
  "hex_rx = Seq (Opt (Lit CHR ''#'')) (Seq hex_pair (Seq hex_pair hex_pair))"

definition hexToRgbObj :: "string \<Rightarrow> rgb" where
  "hexToRgbObj hex =
     (case exec_anchored hex_rx hex of
        Some [r1, r2, r3] \<Rightarrow> \<lparr>r = parseInt16 r1, g = parseInt16 r2, b = parseInt16 r3\<rparr>
      | _ \<Rightarrow> \<lparr>r = 0, g = 0, b = 0\<rparr>)"

subsection \<open>\<open>Number.prototype.toString()\<close> in radix 10\<close>

text \<open>
  The ECMAScript algorithm \<open>Number::toString\<close>: write the value as \<open>s \<times> 10\<^sup>n\<^sup>-\<^sup>k\<close> with \<open>s\<close> an
  integer of \<open>k\<close> digits, \<open>k\<close> as small as possible, and lay the digits of \<open>s\<close> out according to
  \<open>n\<close>. Here \<open>s\<close> comes from the exact decimal expansion of the rational: the value is scaled
  by ten until it is an integer (at most 1100 times; a double has at most 1074 fractional
  digits) and trailing zeros are removed. For a value the worker computes exactly (an integer
  tolerance divided by 100, or a bound of the clamp) this is the text JavaScript prints; where
  the double is only the rounded quotient, JavaScript prints the shortest digits that identify
  that double, which can differ from the exact expansion in the last places.
\<close>

fun scale10 :: "nat \<Rightarrow> int \<Rightarrow> int \<Rightarrow> nat \<Rightarrow> int \<times> nat" where
  "scale10 0 a d m = (a div d, m)"
| "scale10 (Suc fuel) a d m =
     (if a mod d = 0 then (a div d, m) else scale10 fuel (10 * a) d (Suc m))"

function strip_zeros :: "int \<Rightarrow> nat \<Rightarrow> int \<times> nat" where
  "strip_zeros s z =
     (if 0 < s \<and> s mod 10 = 0 then strip_zeros (s div 10) (Suc z) else (s, z))"
  by pat_completeness auto
termination
proof (relation "measure (\<lambda>(s, z). nat s)")
  fix s :: int and z :: nat
  assume "0 < s \<and> s mod 10 = 0"
  then have "s div 10 < s" by (simp add: int_div_less_self)
  with \<open>0 < s \<and> s mod 10 = 0\<close>
  show "((s div 10, Suc z), (s, z)) \<in> measure (\<lambda>(s, z). nat s)" by simp
qed simp

declare strip_zeros.simps [simp del]

definition positive_to_string :: "number \<Rightarrow> string" where
  "positive_to_string x =
     (let (a, d) = quotient_of x;
          (s0, m) = scale10 1100 a d 0;
          (s, z) = strip_zeros s0 0;
          digits = to_radix 10 s;
          k = int (length digits);
          n = k + int z - int m
      in if k \<le> n \<and> n \<le> 21 then digits @ replicate (nat (n - k)) CHR ''0''
         else if 0 < n \<and> n \<le> 21 then take (nat n) digits @ ''.'' @ drop (nat n) digits
         else if - 6 < n \<and> n \<le> 0 then ''0.'' @ replicate (nat (- n)) CHR ''0'' @ digits
         else (if k = 1 then digits else hd digits # ''.'' @ tl digits)
              @ ''e'' @ (if n - 1 < 0 then ''-'' else ''+'') @ to_radix 10 \<bar>n - 1\<bar>)"

definition number_to_string :: "number \<Rightarrow> string" where
  "number_to_string x =
     (if x = 0 then ''0''
      else if x < 0 then ''-'' @ positive_to_string (- x)
      else positive_to_string x)"

subsection \<open>The settings of a convert message\<close>

text \<open>
  The \<open>settings\<close> object is a \<open>ConvertOptions\<close> value of the client's type declarations;
  every field is optional. The worker reads \<open>color\<close>, \<open>tolerance\<close> and \<open>feather\<close> only.
\<close>

record ConvertOptions =
  color :: "string option"
  tolerance :: "number option"
  feather :: "number option"
  applyToAll :: "bool option"
  edgeEnhancement :: "bool option"
  edgeThresholdLow :: "number option"
  edgeThresholdHigh :: "number option"
  morphologyIterations :: "number option"
  removeWatermark :: "bool option"
  wmX :: "number option"
  wmY :: "number option"
  wmW :: "number option"
  wmH :: "number option"

text \<open>The empty object \<open>{}\<close> of \<open>settings || {}\<close>.\<close>

definition no_settings :: ConvertOptions where
  "no_settings =
     \<lparr>color = None, tolerance = None, feather = None, applyToAll = None,
      edgeEnhancement = None, edgeThresholdLow = None, edgeThresholdHigh = None,
      morphologyIterations = None, removeWatermark = None,
      wmX = None, wmY = None, wmW = None, wmH = None\<rparr>"

subsection \<open>The parameter mapping of \<open>runFFmpegColorKey\<close>\<close>

text \<open>\<open>const rgb = hexToRgbObj(settings.color || '#000000')\<close>\<close>

definition rgb_of :: "ConvertOptions \<Rightarrow> rgb" where
  "rgb_of st = hexToRgbObj (or_string (color st) ''#000000'')"

text \<open>\<open>const tol = Math.min(1, Math.max(0, (settings.tolerance || 50) / 100))\<close>\<close>

definition tol :: "ConvertOptions \<Rightarrow> number" where
  "tol st = min 1 (max 0 (or_number (tolerance st) 50 / 100))"

text \<open>
  \<open>const feather = Math.max(0, settings.feather || 0)\<close>. The source computes this value and
  does not use it afterwards.
\<close>

definition feather_of :: "ConvertOptions \<Rightarrow> number" where
  "feather_of st = max 0 (or_number (feather st) 0)"

text \<open>
  \<open>const targetColor = `0x${rgb.r.toString(16).padStart(2,'0')}${...g...}${...b...}`\<close>
\<close>

definition targetColor :: "ConvertOptions \<Rightarrow> string" where
  "targetColor st =
     ''0x'' @ padStart 2 CHR ''0'' (to_radix 16 (int (r (rgb_of st))))
            @ padStart 2 CHR ''0'' (to_radix 16 (int (g (rgb_of st))))
            @ padStart 2 CHR ''0'' (to_radix 16 (int (b (rgb_of st))))"

text \<open>The value of \<open>-vf\<close>: \<open>`colorkey=${targetColor}:${tol}:0.1`\<close>\<close>

definition colorkey_filter :: "ConvertOptions \<Rightarrow> string" where
  "colorkey_filter st =
     ''colorkey='' @ targetColor st @ '':'' @ number_to_string (tol st) @ '':0.1''"

text \<open>The array \<open>args\<close> handed to \<open>ff.run\<close>.\<close>

definition ffmpeg_args :: "string \<Rightarrow> ConvertOptions \<Rightarrow> string list" where
  "ffmpeg_args fileName st =
     [''-i'', fileName,
      ''-vf'', colorkey_filter st,
      ''-c:v'', ''libvpx-vp9'',
      ''-b:v'', ''1.8M'',
      ''-pix_fmt'', ''yuva420p'',
      ''-an'',
      ''out.webm'']"

subsection \<open>Reading a filter chain\<close>

text \<open>
  The worker's argument list is \<open>-i input -vf chain ...\<close>. In the syntax of the chain the stages
  are separated by commas, a stage is \<open>name=parameters\<close>, and positional parameters are
  separated by colons. For \<open>colorkey\<close> the positions are colour, similarity and blend.
\<close>

fun split_on :: "char \<Rightarrow> string \<Rightarrow> string list" where
  "split_on c [] = [[]]"
| "split_on c (x # xs) =
     (if x = c then [] # split_on c xs
      else (case split_on c xs of [] \<Rightarrow> [[x]] | h # t \<Rightarrow> (x # h) # t))"

definition filter_chain :: "string list \<Rightarrow> string list" where
  "filter_chain args =
     (case args of
        i # input # vf # chain # rest \<Rightarrow> if vf = ''-vf'' then split_on CHR '','' chain else []
      | _ \<Rightarrow> [])"

definition stage_name :: "string \<Rightarrow> string" where
  "stage_name stage = takeWhile (\<lambda>c. c \<noteq> CHR ''='') stage"

definition stage_params :: "string \<Rightarrow> string list" where
  "stage_params stage = split_on CHR '':'' (drop 1 (dropWhile (\<lambda>c. c \<noteq> CHR ''='') stage))"

definition is_chroma_key :: "string \<Rightarrow> bool" where
  "is_chroma_key stage = (stage_name stage = ''colorkey'' \<or> stage_name stage = ''chromakey'')"

text \<open>
  The words of the specification about a colour and about a chain, written without the
  pattern: an optional \<open>#\<close> followed by exactly six hexadecimal digits; the token \<open>0x\<close> followed by
  exactly six hexadecimal digits; a chain in which a watermark-masking stage (\<open>delogo\<close>, the
  masking filter named by the repository's documentation) stands before every chroma-key stage.
\<close>

definition is_hex_digit :: "char \<Rightarrow> bool" where
  "is_hex_digit c = (c \<in> set ''0123456789abcdefABCDEF'')"

definition is_hex_color :: "string \<Rightarrow> bool" where
  "is_hex_color c =
     (let ds = (case c of [] \<Rightarrow> [] | x # xs \<Rightarrow> if x = CHR ''#'' then xs else c)
      in length ds = 6 \<and> list_all is_hex_digit ds)"

definition is_hex_token :: "string \<Rightarrow> bool" where
  "is_hex_token t = (take 2 t = ''0x'' \<and> length t = 8 \<and> list_all is_hex_digit (drop 2 t))"

definition is_watermark_mask :: "string \<Rightarrow> bool" where
  "is_watermark_mask stage = (stage_name stage = ''delogo'')"

definition mask_before_chroma_key :: "string list \<Rightarrow> bool" where
  "mask_before_chroma_key chain =
     (\<exists>i < length chain. is_watermark_mask (chain ! i)
        \<and> (\<forall>j < length chain. is_chroma_key (chain ! j) \<longrightarrow> i < j))"

subsection \<open>The engine and the worker's state\<close>

text \<open>
  A thrown value is an \<open>Error\<close> object, given by its name and message, or any other value,
  given by its conversion to a string.
\<close>

datatype thrown = ErrorObj string string | Value string

text \<open>\<open>err && err.message ? err.message : String(err)\<close>\<close>

definition error_text :: "thrown \<Rightarrow> string" where
  "error_text err =
     (case err of
        ErrorObj nm msg \<Rightarrow> if msg \<noteq> [] then msg else nm
      | Value v \<Rightarrow> v)"

text \<open>
  The ffmpeg.wasm engine and the worker scope are outside the repository. Each call the worker
  makes is a field of \<open>engine\<close>: what the call throws or rejects with (\<open>Some\<close>), or that it
  completes (\<open>None\<close>, or \<open>Inr\<close> with its value). An awaited promise is modelled by its
  settlement, and \<open>postMessage\<close> is taken not to throw.
\<close>

record engine =
  importScripts :: "thrown option"
  umd_available :: bool
  createFFmpeg :: "thrown option"
  load :: "thrown option"
  FS_writeFile :: "string \<Rightarrow> bytes \<Rightarrow> thrown option"
  ff_run :: "string list \<Rightarrow> thrown option"
  FS_readFile :: "string \<Rightarrow> thrown + bytes"
  crossOriginIsolated :: bool

datatype engine_call = WriteFile string bytes | Run "string list" | ReadFile string

datatype reply = ProbeOk bool | ConvertOk bytes | ErrorReply string


text \<open>
  The worker's state: the flag \<open>ffReady\<close>, and the two logs a claim can observe, the calls made
  on the engine and the messages posted to the page, both in order.
\<close>

record worker =
  ffReady :: bool
  calls :: "engine_call list"
  posted :: "reply list"

definition postMessage :: "reply \<Rightarrow> worker \<Rightarrow> worker" where
  "postMessage m w = w\<lparr>posted := posted w @ [m]\<rparr>"

definition call :: "engine_call \<Rightarrow> worker \<Rightarrow> worker" where
  "call c w = w\<lparr>calls := calls w @ [c]\<rparr>"

subsection \<open>\<open>ensureFFmpeg\<close> and \<open>runFFmpegColorKey\<close>\<close>

definition ensureFFmpeg :: "engine \<Rightarrow> worker \<Rightarrow> (thrown + unit) \<times> worker" where
  "ensureFFmpeg eng w =
     (if ffReady w then (Inr (), w)
      else (case importScripts eng of
        Some err \<Rightarrow> (Inl err, w)
      | None \<Rightarrow>
          (if \<not> umd_available eng then (Inl (ErrorObj ''Error'' ''FFmpeg UMD not available''), w)
           else (case createFFmpeg eng of
             Some err \<Rightarrow> (Inl err, w)
           | None \<Rightarrow>
               (case load eng of
                  Some err \<Rightarrow> (Inl err, w)
                | None \<Rightarrow> (Inr (), w\<lparr>ffReady := True\<rparr>))))))"

definition runFFmpegColorKey ::
  "engine \<Rightarrow> worker \<Rightarrow> bytes \<Rightarrow> string \<Rightarrow> ConvertOptions \<Rightarrow> (thrown + bytes) \<times> worker" where
  "runFFmpegColorKey eng w inputU8 fileName st =
     (case ensureFFmpeg eng w of
        (Inl err, w1) \<Rightarrow> (Inl err, w1)
      | (Inr ff, w1) \<Rightarrow>
          (let w2 = call (WriteFile fileName inputU8) w1 in
           (case FS_writeFile eng fileName inputU8 of
              Some err \<Rightarrow> (Inl err, w2)
            | None \<Rightarrow>
                (let args = ffmpeg_args fileName st;
                     w3 = call (Run args) w2 in
                 (case ff_run eng args of
                    Some err \<Rightarrow> (Inl err, w3)
                  | None \<Rightarrow>
                      (let w4 = call (ReadFile ''out.webm'') w3 in
                       (case FS_readFile eng ''out.webm'' of
                          Inl err \<Rightarrow> (Inl err, w4)
                        | Inr out \<Rightarrow> (Inr out, w4))))))))"

subsection \<open>\<open>self.onmessage\<close>\<close>

record convert_payload =
  fileBuffer :: "bytes option"
  fileName :: "string option"
  settings :: "ConvertOptions option"

record message =
  msg_type :: "string option"
  payload :: "convert_payload option"

text \<open>
  Destructuring \<open>payload\<close> when it is \<open>undefined\<close> throws a \<open>TypeError\<close>; the wording of its
  message is the JavaScript engine's.
\<close>

definition destructure_error :: thrown where
  "destructure_error =
     ErrorObj ''TypeError'' ''Cannot destructure property fileBuffer of payload as it is undefined.''"

text \<open>The body of the \<open>try\<close> block: what it throws, if anything, and the state it leaves.\<close>

definition try_block :: "engine \<Rightarrow> worker \<Rightarrow> message \<Rightarrow> (thrown + unit) \<times> worker" where
  "try_block eng w e =
     (if msg_type e = Some ''probe'' then
        (case ensureFFmpeg eng w of
           (Inl err, w1) \<Rightarrow> (Inl err, w1)
         | (Inr ff, w1) \<Rightarrow> (Inr (), postMessage (ProbeOk (crossOriginIsolated eng)) w1))
      else if msg_type e = Some ''convert'' then
        (case payload e of
           None \<Rightarrow> (Inl destructure_error, w)
         | Some p \<Rightarrow>
             let inputU8 = (case fileBuffer p of None \<Rightarrow> [] | Some buf \<Rightarrow> buf) in
             (case runFFmpegColorKey eng w inputU8 (or_string (fileName p) ''input.mp4'')
                     (case settings p of None \<Rightarrow> no_settings | Some st \<Rightarrow> st) of
                (Inl err, w1) \<Rightarrow> (Inl err, w1)
              | (Inr outU8, w1) \<Rightarrow> (Inr (), postMessage (ConvertOk outU8) w1)))
      else (Inr (), w))"

definition onmessage :: "engine \<Rightarrow> worker \<Rightarrow> message \<Rightarrow> worker" where
  "onmessage eng w e =
     (case try_block eng w e of
        (Inl err, w1) \<Rightarrow> postMessage (ErrorReply (error_text err)) w1
      | (Inr done, w1) \<Rightarrow> w1)"

section \<open>The client: \<open>App.tsx\<close> and its services\<close>

subsection \<open>The types of the client\<close>

datatype TaskStatus = PENDING | RUNNING | SUCCESS | FAILED

record FileInfo =
  fileId :: string
  name :: string
  size' :: number
  duration :: number

text \<open>\<open>TaskInfo\<close>, the answer of the status request.\<close>

record TaskInfo =
  info_taskId :: string
  info_status :: TaskStatus
  info_progress :: "number option"
  info_resultUrl :: "string option"
  info_errorCode :: "string option"
  info_errorMessage :: "string option"

record FileProcessingState =
  file_info :: FileInfo
  taskId :: "string option"
  status :: TaskStatus
  progress :: number
  resultUrl :: "string option"
  error :: "string option"

text \<open>\<open>a || b\<close> where both sides may be \<open>undefined\<close>: a missing or empty \<open>a\<close> gives \<open>b\<close>.\<close>

definition or_optional :: "string option \<Rightarrow> string option \<Rightarrow> string option" where
  "or_optional a d = (case a of None \<Rightarrow> d | Some x \<Rightarrow> if x = [] then d else Some x)"

text \<open>\<open>xs[i]\<close>, which is \<open>undefined\<close> past the end.\<close>

definition at_index :: "'a list \<Rightarrow> nat \<Rightarrow> 'a option" where
  "at_index xs i = (if i < length xs then Some (xs ! i) else None)"

text \<open>
  \<open>Promise.all\<close> over requests that have settled: the list of the values, or a rejection when
  one of them rejected. The client only logs the rejection, so the first one in list order
  stands for it.
\<close>

fun promise_all :: "(thrown + 'a) list \<Rightarrow> thrown + 'a list" where
  "promise_all [] = Inr []"
| "promise_all (x # xs) =
     (case x of
        Inl err \<Rightarrow> Inl err
      | Inr v \<Rightarrow> (case promise_all xs of Inl err \<Rightarrow> Inl err | Inr vs \<Rightarrow> Inr (v # vs)))"

subsection \<open>\<open>handleFilesSelected\<close>: the state of a file after upload\<close>

definition uploaded_state :: "FileInfo \<Rightarrow> FileProcessingState" where
  "uploaded_state fi =
     \<lparr>file_info = fi, taskId = None, status = PENDING, progress = 0, resultUrl = None, error = None\<rparr>"

subsection \<open>\<open>pollTaskStatus\<close>\<close>

text \<open>
  The server is a parameter: \<open>getTaskStatus\<close> gives, for a task identifier, the \<open>TaskInfo\<close> of
  the response or the error the request throws. The function reads two lists: \<open>files\<close>, the
  state captured when the poll started, from which the tasks to ask about are taken; and
  \<open>prevFiles\<close>, the state at the time the answers arrive, which \<open>setFiles\<close> hands to the update.
  The two differ when another update (another poll, a convert start, a removal) came in
  between. The update looks at the task identifier of a file only, not at its status.
\<close>

definition activeTasks :: "FileProcessingState list \<Rightarrow> FileProcessingState list" where
  "activeTasks files =
     filter (\<lambda>f. (case taskId f of None \<Rightarrow> False | Some t \<Rightarrow> t \<noteq> [])
                  \<and> (status f = RUNNING \<or> status f = PENDING)) files"

text \<open>
  \<open>await Promise.all(activeTasks.map(f => getTaskStatus(f.taskId!)))\<close>, on the identifiers.
\<close>

definition statusResults :: "(string \<Rightarrow> thrown + TaskInfo) \<Rightarrow> string list \<Rightarrow> thrown + TaskInfo list" where
  "statusResults getTaskStatus taskIds = promise_all (map getTaskStatus taskIds)"

definition update_file :: "TaskInfo list \<Rightarrow> FileProcessingState \<Rightarrow> FileProcessingState" where
  "update_file results f =
     (case find (\<lambda>s. Some (info_taskId s) = taskId f) results of
        Some statusResult \<Rightarrow>
          f\<lparr>status := info_status statusResult,
            progress := or_number (info_progress statusResult) (progress f),
            resultUrl := or_optional (info_resultUrl statusResult) (resultUrl f),
            error := or_optional (info_errorMessage statusResult) (error f)\<rparr>
      | None \<Rightarrow> f)"

definition pollTaskStatus ::
  "(string \<Rightarrow> thrown + TaskInfo) \<Rightarrow> FileProcessingState list \<Rightarrow> FileProcessingState list
     \<Rightarrow> FileProcessingState list" where
  "pollTaskStatus getTaskStatus files prevFiles =
     (if activeTasks files = [] then prevFiles
      else (case statusResults getTaskStatus (map (\<lambda>f. or_string (taskId f) []) (activeTasks files)) of
              Inl err \<Rightarrow> prevFiles
            | Inr results \<Rightarrow> map (update_file results) prevFiles))"

subsection \<open>\<open>handleStartConvert\<close>\<close>

text \<open>
  \<open>convertFiles\<close> is the request to the server: the task identifiers of the response, or the
  error the request throws. As in the poll, the file identifiers are taken from \<open>files\<close>, the
  state captured when the handler started, and the update is applied to \<open>prevFiles\<close>, the state
  at the time the response arrives.
\<close>

definition handleStartConvert ::
  "(string list \<Rightarrow> ConvertOptions \<Rightarrow> thrown + string list) \<Rightarrow> ConvertOptions
     \<Rightarrow> FileProcessingState list \<Rightarrow> FileProcessingState list \<Rightarrow> FileProcessingState list" where
  "handleStartConvert convertFiles convertOptions files prevFiles =
     (let fileIds = map (\<lambda>f. fileId (file_info f)) files in
      if fileIds = [] then prevFiles
      else (case convertFiles fileIds convertOptions of
              Inl err \<Rightarrow> prevFiles
            | Inr taskIds \<Rightarrow>
                map (\<lambda>(f, index). f\<lparr>taskId := at_index taskIds index, status := RUNNING, progress := 0\<rparr>)
                    (zip prevFiles [0 ..< length prevFiles])))"

subsection \<open>The order of the task states\<close>

text \<open>
  The specification's order \<open>PENDING\<close>, \<open>RUNNING\<close>, then \<open>SUCCESS\<close> or \<open>FAILED\<close>: a step of an observed
  sequence keeps the state or moves to the next one, and a sequence follows the order when
  each of its steps does.
\<close>

definition step_allowed :: "TaskStatus \<Rightarrow> TaskStatus \<Rightarrow> bool" where
  "step_allowed s1 s2 =
     (s1 = s2 \<or> (s1 = PENDING \<and> s2 = RUNNING)
        \<or> (s1 = RUNNING \<and> (s2 = SUCCESS \<or> s2 = FAILED)))"

fun follows_order :: "TaskStatus list \<Rightarrow> bool" where
  "follows_order (s1 # s2 # rest) = (step_allowed s1 s2 \<and> follows_order (s2 # rest))"
| "follows_order short = True"

definition terminal :: "TaskStatus \<Rightarrow> bool" where
  "terminal s = (s = SUCCESS \<or> s = FAILED)"

section \<open>The server's convert operation\<close>

text \<open>
  Modelled from the spec: the server-side \<open>convert\<close> operation and its task store are not among
  the sources (only the client's request \<open>convertFiles\<close> and its caller \<open>handleStartConvert\<close> are).
  The specification's words: \<open>convert(fileIds, options)\<close> fails with \<open>LIMIT_EXCEEDED_COUNT\<close> if
  \<open>fileIds\<close> exceeds 10; each id must reference a previously accepted file; a task is created per
  file, in state \<open>PENDING\<close>, with an identifier that is one-to-one with the file it targets.
\<close>

datatype error_code =
    LIMIT_EXCEEDED_SIZE | LIMIT_EXCEEDED_COUNT | LIMIT_EXCEEDED_DURATION
  | UNSUPPORTED_FORMAT | ENGINE_FAILED | STORAGE_ERROR | TIMEOUT | NOT_FOUND

record task =
  task_id :: string
  target :: string
  task_status :: TaskStatus

definition max_batch :: nat where
  "max_batch = 10"

definition new_task :: "string \<Rightarrow> task" where
  "new_task fid = \<lparr>task_id = ''task-'' @ fid, target = fid, task_status = PENDING\<rparr>"

definition convert ::
  "string list \<Rightarrow> task list \<Rightarrow> string list \<Rightarrow> ConvertOptions \<Rightarrow> (error_code + string list) \<times> task list" where
  "convert uploaded store fileIds options =
     (if max_batch < length fileIds then (Inl LIMIT_EXCEEDED_COUNT, store)
      else if \<not> list_all (\<lambda>fid. fid \<in> set uploaded) fileIds then (Inl NOT_FOUND, store)
      else (Inr (map (\<lambda>fid. task_id (new_task fid)) fileIds), store @ map new_task fileIds))"

text \<open>
  The client's request \<open>convertFiles\<close> against that server: a failure response is thrown as an
  \<open>Error\<close> whose message is the one of the response, here the name of the code.
\<close>

definition code_name :: "error_code \<Rightarrow> string" where
  "code_name c =
     (case c of
        LIMIT_EXCEEDED_SIZE \<Rightarrow> ''LIMIT_EXCEEDED_SIZE''
      | LIMIT_EXCEEDED_COUNT \<Rightarrow> ''LIMIT_EXCEEDED_COUNT''
      | LIMIT_EXCEEDED_DURATION \<Rightarrow> ''LIMIT_EXCEEDED_DURATION''
      | UNSUPPORTED_FORMAT \<Rightarrow> ''UNSUPPORTED_FORMAT''
      | ENGINE_FAILED \<Rightarrow> ''ENGINE_FAILED''
      | STORAGE_ERROR \<Rightarrow> ''STORAGE_ERROR''
      | TIMEOUT \<Rightarrow> ''TIMEOUT''
      | NOT_FOUND \<Rightarrow> ''NOT_FOUND'')"

definition convertFiles ::
  "string list \<Rightarrow> task list \<Rightarrow> string list \<Rightarrow> ConvertOptions \<Rightarrow> thrown + string list" where
  "convertFiles uploaded store fileIds options =
     (case fst (convert uploaded store fileIds options) of
        Inl c \<Rightarrow> Inl (ErrorObj ''Error'' (code_name c))
      | Inr taskIds \<Rightarrow> Inr taskIds)"

section \<open>Concrete inputs\<close>

text \<open>The initial \<open>convertOptions\<close> of \<open>App.tsx\<close>, which are also the options of the specification's example.\<close>

definition initial_convertOptions :: ConvertOptions where
  "initial_convertOptions =
     no_settings\<lparr>color := Some ''#000000'', tolerance := Some 10, feather := Some (1 / 2),
       applyToAll := Some True, removeWatermark := Some True,
       wmX := Some (6 / 5), wmY := Some (6 / 5), wmW := Some 14, wmH := Some (11 / 2)\<rparr>"

text \<open>The worker as the script leaves it (\<open>let ffReady = false\<close>), and an engine whose calls all complete.\<close>

definition new_worker :: worker where
  "new_worker = \<lparr>ffReady = False, calls = [], posted = []\<rparr>"

definition working_engine :: engine where
  "working_engine =
     \<lparr>importScripts = None, umd_available = True, createFFmpeg = None, load = None,
      FS_writeFile = (\<lambda>path content. None), ff_run = (\<lambda>args. None),
      FS_readFile = (\<lambda>path. Inr [1, 2, 3]), crossOriginIsolated = False\<rparr>"

text \<open>An engine on which the script of ffmpeg.wasm does not load.\<close>

definition offline_engine :: engine where
  "offline_engine = working_engine\<lparr>importScripts := Some (ErrorObj ''NetworkError'' ''Failed to load script'')\<rparr>"

text \<open>An engine that runs but whose output file cannot be read.\<close>

definition unreadable_engine :: engine where
  "unreadable_engine = working_engine\<lparr>FS_readFile := (\<lambda>path. Inl (ErrorObj ''Error'' ''ENOENT''))\<rparr>"

definition convert_message :: "string \<Rightarrow> ConvertOptions \<Rightarrow> message" where
  "convert_message fn st =
     \<lparr>msg_type = Some ''convert'',
      payload = Some \<lparr>fileBuffer = Some [], fileName = Some fn, settings = Some st\<rparr>\<rparr>"

text \<open>A file of the specification's example (9.8 seconds), and states of files with a task.\<close>

definition example_file :: FileInfo where
  "example_file = \<lparr>fileId = ''f1'', name = ''a.mp4'', size' = 1000, duration = 49 / 5\<rparr>"

definition file_with_task :: "string \<Rightarrow> TaskStatus \<Rightarrow> FileProcessingState" where
  "file_with_task t s = (uploaded_state example_file)\<lparr>taskId := Some t, status := s\<rparr>"

text \<open>A server that accepts every convert request, with one task per file.\<close>

definition accepts_all :: "string list \<Rightarrow> ConvertOptions \<Rightarrow> thrown + string list" where
  "accepts_all fileIds options = Inr (map (\<lambda>fid. ''task-'' @ fid) fileIds)"

text \<open>A server that reports every task as \<open>PENDING\<close>, as for a task that is queued.\<close>

definition reports_pending :: "string \<Rightarrow> thrown + TaskInfo" where
  "reports_pending t =
     Inr \<lparr>info_taskId = t, info_status = PENDING, info_progress = None, info_resultUrl = None,
          info_errorCode = None, info_errorMessage = None\<rparr>"

text \<open>
  A server that knows the tasks \<open>t1\<close> and \<open>t2\<close>, both finished, and answers a request about any
  other identifier by a failure, which \<open>getTaskStatus\<close> throws.
\<close>

definition knows_t1_t2 :: "string \<Rightarrow> thrown + TaskInfo" where
  "knows_t1_t2 t =
     (if t = ''t1'' \<or> t = ''t2''
      then Inr \<lparr>info_taskId = t, info_status = SUCCESS, info_progress = Some 100,
                info_resultUrl = Some (''/results/'' @ t), info_errorCode = None,
                info_errorMessage = None\<rparr>
      else Inl (ErrorObj ''Error'' ''NOT_FOUND''))"

section \<open>Properties of the colour pattern\<close>

lemma run_hex_pair:
  "run hex_pair (caps, s) =
     (if 2 \<le> length s \<and> list_all (\<lambda>c. c \<in> set hex_chars) (take 2 s)
      then [(caps @ [take 2 s], drop 2 s)] else [])"
proof (cases s)
  case Nil
  then show ?thesis by (simp add: hex_pair_def numeral_2_eq_2)
next
  case (Cons x xs)
  then show ?thesis by (cases xs) (simp_all add: hex_pair_def numeral_2_eq_2)
qed

lemma run_seq_single:
  "run r1 st = (if c then [st'] else []) \<Longrightarrow> run (Seq r1 r2) st = (if c then run r2 st' else [])"
  by simp

lemma take_6_split: "take 6 s = take 2 s @ take 2 (drop 2 s) @ take 2 (drop 4 s)"
proof -
  have "take (2 + (2 + 2)) s = take 2 s @ take 2 (drop 2 s) @ take 2 (drop (2 + 2) s)"
    by (simp only: take_add drop_drop add.commute)
  then show ?thesis by simp
qed

lemma run_three_pairs:
  "run (Seq hex_pair (Seq hex_pair hex_pair)) (caps, s) =
     (if 6 \<le> length s \<and> list_all (\<lambda>c. c \<in> set hex_chars) (take 6 s)
      then [(caps @ [take 2 s, take 2 (drop 2 s), take 2 (drop 4 s)], drop 6 s)] else [])"
proof -
  have inner: "run (Seq hex_pair hex_pair) (caps', s') =
     (if 4 \<le> length s' \<and> list_all (\<lambda>c. c \<in> set hex_chars) (take 2 s')
          \<and> list_all (\<lambda>c. c \<in> set hex_chars) (take 2 (drop 2 s'))
      then [(caps' @ [take 2 s', take 2 (drop 2 s')], drop 4 s')] else [])" for caps' s'
    by (auto simp: run_hex_pair)
  have "run (Seq hex_pair (Seq hex_pair hex_pair)) (caps, s) =
     (if 2 \<le> length s \<and> list_all (\<lambda>c. c \<in> set hex_chars) (take 2 s)
      then run (Seq hex_pair hex_pair) (caps @ [take 2 s], drop 2 s) else [])"
    by (rule run_seq_single) (rule run_hex_pair)
  then show ?thesis
    unfolding inner take_6_split
    by (auto simp del: run.simps)
qed

lemma hash_not_hex: "CHR ''#'' \<notin> set hex_chars"
  by (simp add: hex_chars_def)

lemma run_three_pairs_hash:
  "run (Seq hex_pair (Seq hex_pair hex_pair)) (caps, CHR ''#'' # xs) = []"
  by (subst run_three_pairs) (simp add: hash_not_hex take_6_split)

text \<open>The optional \<open>#\<close> is taken when it is there: the alternative without it fails at once.\<close>

lemma run_hex_rx:
  "run hex_rx ([], s) =
     run (Seq hex_pair (Seq hex_pair hex_pair))
       ([], case s of [] \<Rightarrow> [] | x # xs \<Rightarrow> if x = CHR ''#'' then xs else s)"
proof -
  let ?R3 = "Seq hex_pair (Seq hex_pair hex_pair)"
  have opt: "run (Opt (Lit CHR ''#'')) ([], s) =
      (case s of [] \<Rightarrow> [([], [])]
       | x # xs \<Rightarrow> if x = CHR ''#'' then [([], xs), ([], s)] else [([], s)])"
    by (simp split: list.splits)
  have "run hex_rx ([], s) = concat (map (run ?R3) (run (Opt (Lit CHR ''#'')) ([], s)))"
    by (simp only: hex_rx_def run.simps)
  then show ?thesis
    unfolding opt
    by (cases s) (simp_all add: run_three_pairs_hash del: run.simps)
qed

lemma exec_three_pairs:
  "(case filter (\<lambda>(caps, rest). rest = []) (run (Seq hex_pair (Seq hex_pair hex_pair)) ([], ds)) of
      [] \<Rightarrow> None
    | (caps, rest) # others \<Rightarrow> Some caps) =
   (if length ds = 6 \<and> list_all (\<lambda>c. c \<in> set hex_chars) ds
    then Some [take 2 ds, take 2 (drop 2 ds), drop 4 ds] else None)"
proof (cases "length ds = 6")
  case True
  then have "take 6 ds = ds" "take 2 (drop 4 ds) = drop 4 ds" "drop 6 ds = []"
    by simp_all
  with True show ?thesis
    by (simp add: run_three_pairs del: run.simps)
next
  case False
  then show ?thesis
    by (auto simp: run_three_pairs simp del: run.simps)
qed

text \<open>What \<open>exec\<close> returns on the colour pattern, without the matcher.\<close>

lemma exec_hex_rx:
  "exec_anchored hex_rx s =
     (let ds = (case s of [] \<Rightarrow> [] | x # xs \<Rightarrow> if x = CHR ''#'' then xs else s)
      in if length ds = 6 \<and> list_all (\<lambda>c. c \<in> set hex_chars) ds
         then Some [take 2 ds, take 2 (drop 2 ds), drop 4 ds] else None)"
  unfolding exec_anchored_def run_hex_rx exec_three_pairs Let_def ..

lemma hex_chars_digit: "c \<in> set hex_chars \<longleftrightarrow> is_hex_digit c"
  by (auto simp: hex_chars_def is_hex_digit_def)

lemma hex_color_iff: "is_hex_color c \<longleftrightarrow> exec_anchored hex_rx c \<noteq> None"
  unfolding exec_hex_rx is_hex_color_def Let_def
  by (simp add: hex_chars_digit)

lemma hex_value_less: "c \<in> set hex_chars \<Longrightarrow> hex_value c < 16"
  by (auto simp: hex_chars_def hex_value_def)

lemma parseInt16_pair:
  assumes "length s = 2" "list_all (\<lambda>c. c \<in> set hex_chars) s"
  shows "parseInt16 s < 256"
proof -
  from assms obtain x y where s: "s = [x, y]"
    by (auto simp: length_Suc_conv numeral_2_eq_2)
  with assms have "hex_value x < 16" "hex_value y < 16"
    by (simp_all add: hex_value_less)
  with s assms show ?thesis by (simp add: parseInt16_def)
qed

lemma digit_char_hex: "is_hex_digit (digit_char d)"
proof -
  have "list_all is_hex_digit ''0123456789abcdef''"
    by (simp add: is_hex_digit_def)
  then have "\<forall>i < 16. is_hex_digit (''0123456789abcdef'' ! i)"
    by (simp only: list_all_length) simp
  then show ?thesis by (simp add: digit_char_def)
qed

lemma to_radix_16_byte:
  assumes "n < 256"
  shows "length (padStart 2 CHR ''0'' (to_radix 16 (int n))) = 2"
    and "list_all is_hex_digit (padStart 2 CHR ''0'' (to_radix 16 (int n)))"
proof -
  have small: "to_radix 16 m = [digit_char (nat m)]" if "m < 16" for m
    using that by (simp add: to_radix.simps)
  have zero: "is_hex_digit CHR ''0''" by (simp add: is_hex_digit_def)
  show "length (padStart 2 CHR ''0'' (to_radix 16 (int n))) = 2"
  proof (cases "n < 16")
    case True
    then show ?thesis by (simp add: small padStart_def)
  next
    case False
    with assms have "int n div 16 < 16" by simp
    with False show ?thesis
      by (subst to_radix.simps) (simp add: small padStart_def)
  qed
  show "list_all is_hex_digit (padStart 2 CHR ''0'' (to_radix 16 (int n)))"
  proof (cases "n < 16")
    case True
    then show ?thesis by (simp add: small padStart_def digit_char_hex zero)
  next
    case False
    with assms have "int n div 16 < 16" by simp
    with False show ?thesis
      by (subst to_radix.simps) (simp add: small padStart_def digit_char_hex)
  qed
qed

lemma padStart_zero: "padStart 2 CHR ''0'' (to_radix 16 0) = ''00''"
  by (simp add: to_radix.simps padStart_def digit_char_def)

lemma hex_groups_byte:
  assumes "length ds = 6" "list_all (\<lambda>c. c \<in> set hex_chars) ds"
  shows "parseInt16 (take 2 ds) < 256" "parseInt16 (take 2 (drop 2 ds)) < 256"
    "parseInt16 (drop 4 ds) < 256"
proof -
  have part: "list_all (\<lambda>c. c \<in> set hex_chars) (take 2 ds)"
    "list_all (\<lambda>c. c \<in> set hex_chars) (take 2 (drop 2 ds))"
    "list_all (\<lambda>c. c \<in> set hex_chars) (drop 4 ds)"
    using assms(2) by (auto simp: list_all_iff dest: in_set_takeD in_set_dropD)
  show "parseInt16 (take 2 ds) < 256"
    using assms(1) part(1) by (intro parseInt16_pair) simp_all
  show "parseInt16 (take 2 (drop 2 ds)) < 256"
    using assms(1) part(2) by (intro parseInt16_pair) simp_all
  show "parseInt16 (drop 4 ds) < 256"
    using assms(1) part(3) by (intro parseInt16_pair) simp_all
qed

lemma hexToRgbObj_byte: "r (hexToRgbObj c) < 256 \<and> g (hexToRgbObj c) < 256 \<and> b (hexToRgbObj c) < 256"
proof (cases "exec_anchored hex_rx c")
  case None
  then show ?thesis by (simp add: hexToRgbObj_def)
next
  case (Some caps)
  define ds where "ds = (case c of [] \<Rightarrow> [] | x # xs \<Rightarrow> if x = CHR ''#'' then xs else c)"
  from Some have len: "length ds = 6" and hex: "list_all (\<lambda>c. c \<in> set hex_chars) ds"
    and caps: "caps = [take 2 ds, take 2 (drop 2 ds), drop 4 ds]"
    unfolding exec_hex_rx Let_def ds_def [symmetric] by (auto split: if_splits)
  from Some caps hex_groups_byte [OF len hex] show ?thesis
    by (simp add: hexToRgbObj_def)
qed

lemma hexToRgbObj_black: "\<not> is_hex_color c \<Longrightarrow> hexToRgbObj c = \<lparr>r = 0, g = 0, b = 0\<rparr>"
  by (simp add: hex_color_iff hexToRgbObj_def)

lemma targetColor_token: "is_hex_token (targetColor st)"
  using hexToRgbObj_byte [of "or_string (color st) ''#000000''"]
  by (simp add: is_hex_token_def targetColor_def rgb_of_def to_radix_16_byte)

lemma hexToRgbObj_default: "hexToRgbObj ''#000000'' = \<lparr>r = 0, g = 0, b = 0\<rparr>"
  by code_simp

lemma rgb_of_black:
  assumes "case color st of None \<Rightarrow> True | Some c \<Rightarrow> \<not> is_hex_color c"
  shows "rgb_of st = \<lparr>r = 0, g = 0, b = 0\<rparr>"
proof (cases "color st")
  case None
  then show ?thesis by (simp add: rgb_of_def or_string_def hexToRgbObj_default)
next
  case (Some c)
  with assms have "\<not> is_hex_color c" by simp
  with Some show ?thesis
    by (simp add: rgb_of_def or_string_def hexToRgbObj_default hexToRgbObj_black)
qed

text \<open>
  C9. A colour string that is not an optional \<open>#\<close> followed by exactly six hexadecimal digits is
  replaced by black, as a value and with no error (\<open>hexToRgbObj\<close> is total); so is a missing
  or empty colour of the settings; and whatever the settings are, the colour token of the
  filter is \<open>0x\<close> followed by exactly six hexadecimal digits, each channel on two digits.
\<close>

theorem invalid_color_maps_to_black:
  "(\<not> is_hex_color c \<longrightarrow> hexToRgbObj c = \<lparr>r = 0, g = 0, b = 0\<rparr>)
   \<and> ((case color st of None \<Rightarrow> True | Some c' \<Rightarrow> \<not> is_hex_color c') \<longrightarrow> targetColor st = ''0x000000'')
   \<and> is_hex_token (targetColor st)"
  by (simp add: hexToRgbObj_black targetColor_token)
     (simp add: targetColor_def rgb_of_black padStart_zero)

theorem invalid_color_maps_to_black_witness:
  "\<not> is_hex_color ''red'' \<and> hexToRgbObj ''red'' = \<lparr>r = 0, g = 0, b = 0\<rparr>
   \<and> (case color (no_settings\<lparr>color := Some ''red''\<rparr>) of None \<Rightarrow> True | Some c' \<Rightarrow> \<not> is_hex_color c')
   \<and> targetColor (no_settings\<lparr>color := Some ''red''\<rparr>) = ''0x000000''
   \<and> is_hex_token (targetColor (no_settings\<lparr>color := Some ''red''\<rparr>))"
proof -
  have h: "\<not> is_hex_color ''red''"
    by (simp add: is_hex_color_def)
  have h': "case color (no_settings\<lparr>color := Some ''red''\<rparr>) of None \<Rightarrow> True | Some c' \<Rightarrow> \<not> is_hex_color c'"
    using h by simp
  from invalid_color_maps_to_black [of "''red''" "no_settings\<lparr>color := Some ''red''\<rparr>"] h h'
  show ?thesis by blast
qed

section \<open>Properties of the parameter mapping\<close>

text \<open>Inside the range, and away from zero, the similarity is the tolerance divided by 100.\<close>

lemma tol_linear: "0 < t \<Longrightarrow> t \<le> 100 \<Longrightarrow> tol (st\<lparr>tolerance := Some t\<rparr>) = t / 100"
  by (simp add: tol_def or_number_def)

text \<open>
  C1. The tolerance 0 is falsy, so \<open>settings.tolerance || 50\<close> replaces it by the default 50: the
  similarity handed to the filter is 0.5, where the claim says 0.00.
\<close>

theorem tolerance_zero_maps_to_default:
  "tol (no_settings\<lparr>tolerance := Some 0\<rparr>) = 1 / 2
   \<and> tol (no_settings\<lparr>tolerance := Some 0\<rparr>) \<noteq> 0 / 100
   \<and> map stage_params (filter_chain (ffmpeg_args ''input.mp4'' (no_settings\<lparr>tolerance := Some 0\<rparr>)))
       = [[''0x000000'', ''0.5'', ''0.1'']]"
  by code_simp

text \<open>The feather of the settings has no effect on the arguments.\<close>

lemma ffmpeg_args_feather: "ffmpeg_args fn (st\<lparr>feather := f\<rparr>) = ffmpeg_args fn st"
  by (simp add: ffmpeg_args_def colorkey_filter_def targetColor_def rgb_of_def tol_def)

text \<open>
  C2. With feather 3 the claim asks for the blend 0.3; the blend of the chroma-key stage is
  the constant 0.1 of the template.
\<close>

theorem blend_is_constant:
  "feather_of (no_settings\<lparr>feather := Some 3\<rparr>) / 10 = 3 / 10
   \<and> number_to_string (3 / 10) = ''0.3''
   \<and> map stage_params (filter_chain (ffmpeg_args ''input.mp4'' (no_settings\<lparr>feather := Some 3\<rparr>)))
       = [[''0x000000'', ''0.5'', ''0.1'']]"
  by code_simp

lemma digit_char_mem: "digit_char d \<in> set ''0123456789abcdef''"
proof -
  have "d mod 16 < length ''0123456789abcdef''" by simp
  then show ?thesis unfolding digit_char_def by (rule nth_mem)
qed

lemma digit_char_not_comma: "CHR '','' \<noteq> digit_char d"
  using digit_char_mem [of d] by auto

lemma to_radix_no_comma: "CHR '','' \<notin> set (to_radix bs n)"
proof (induction bs n rule: to_radix.induct)
  case (1 bs n)
  show ?case
  proof (cases "bs < 2 \<or> n < bs")
    case True
    then show ?thesis by (subst to_radix.simps) (simp add: digit_char_not_comma)
  next
    case False
    with 1 show ?thesis by (subst to_radix.simps) (simp add: digit_char_not_comma)
  qed
qed

lemma to_radix_nonempty: "to_radix bs n \<noteq> []"
  by (subst to_radix.simps) simp

lemma positive_no_comma: "CHR '','' \<notin> set (positive_to_string x)"
proof -
  have digits: "CHR '','' \<notin> set (to_radix 10 n)" for n by (rule to_radix_no_comma)
  have tk: "CHR '','' \<notin> set (take m (to_radix 10 n))" for m n
    using digits by (blast dest: in_set_takeD)
  have dr: "CHR '','' \<notin> set (drop m (to_radix 10 n))" for m n
    using digits by (blast dest: in_set_dropD)
  have hd': "CHR '','' \<noteq> hd (to_radix 10 n)" for n
    using digits [of n] to_radix_nonempty [of 10 n] by (metis list.set_sel(1))
  have tl': "CHR '','' \<notin> set (tl (to_radix 10 n))" for n
    using digits [of n] to_radix_nonempty [of 10 n] by (metis list.set_sel(2))
  show ?thesis
    unfolding positive_to_string_def Let_def
    by (simp add: digits tk dr hd' tl' split: prod.splits)
qed

lemma number_no_comma: "CHR '','' \<notin> set (number_to_string x)"
  by (simp add: number_to_string_def positive_no_comma)

lemma split_on_absent: "c \<notin> set s \<Longrightarrow> split_on c s = [s]"
  by (induction s) auto

lemma hex_digit_not_comma: "is_hex_digit c \<Longrightarrow> c \<noteq> CHR '',''"
  by (auto simp: is_hex_digit_def)

lemma targetColor_no_comma: "CHR '','' \<notin> set (targetColor st)"
proof
  assume mem: "CHR '','' \<in> set (targetColor st)"
  have tok: "is_hex_token (targetColor st)" by (rule targetColor_token)
  have "targetColor st = take 2 (targetColor st) @ drop 2 (targetColor st)" by simp
  with mem have "CHR '','' \<in> set (take 2 (targetColor st)) \<union> set (drop 2 (targetColor st))"
    by (metis set_append)
  with tok show False
    by (auto simp: is_hex_token_def list_all_iff dest: hex_digit_not_comma)
qed

lemma colorkey_filter_no_comma: "CHR '','' \<notin> set (colorkey_filter st)"
  by (simp add: colorkey_filter_def targetColor_no_comma number_no_comma)

lemma filter_chain_args: "filter_chain (ffmpeg_args fn st) = [colorkey_filter st]"
  by (simp add: filter_chain_def ffmpeg_args_def split_on_absent colorkey_filter_no_comma)

lemma stage_name_colorkey: "stage_name (colorkey_filter st) = ''colorkey''"
  by (simp add: stage_name_def colorkey_filter_def)

lemma ffmpeg_args_watermark:
  "ffmpeg_args fn (st\<lparr>removeWatermark := w, wmX := x, wmY := y, wmW := ww, wmH := h\<rparr>) = ffmpeg_args fn st"
  by (simp add: ffmpeg_args_def colorkey_filter_def targetColor_def rgb_of_def tol_def)

text \<open>
  C4 as the code has it: whatever the settings, the chain of the worker is the single
  chroma-key stage; it has no watermark-masking stage, and \<open>removeWatermark\<close> and the region
  fields have no effect on the arguments.
\<close>

theorem chain_is_one_chroma_key_stage:
  "filter_chain (ffmpeg_args fn st) = [colorkey_filter st]
   \<and> is_chroma_key (colorkey_filter st)
   \<and> \<not> is_watermark_mask (colorkey_filter st)
   \<and> ffmpeg_args fn (st\<lparr>removeWatermark := w, wmX := x, wmY := y, wmW := ww, wmH := h\<rparr>) = ffmpeg_args fn st"
  by (simp add: filter_chain_args is_chroma_key_def is_watermark_mask_def stage_name_colorkey
        ffmpeg_args_watermark)

text \<open>
  C4 as stated fails on the options of its own example: \<open>removeWatermark\<close> is true and the chain
  is the chroma-key stage alone.
\<close>

theorem no_watermark_mask_counterexample:
  "removeWatermark initial_convertOptions = Some True
   \<and> filter_chain (ffmpeg_args ''input.mp4'' initial_convertOptions) = [''colorkey=0x000000:0.1:0.1'']
   \<and> \<not> mask_before_chroma_key (filter_chain (ffmpeg_args ''input.mp4'' initial_convertOptions))"
proof -
  have chain: "filter_chain (ffmpeg_args ''input.mp4'' initial_convertOptions) = [''colorkey=0x000000:0.1:0.1'']"
    by code_simp
  have "removeWatermark initial_convertOptions = Some True"
    by (simp add: initial_convertOptions_def)
  moreover have "\<not> mask_before_chroma_key [''colorkey=0x000000:0.1:0.1'']"
    by (simp add: mask_before_chroma_key_def is_watermark_mask_def stage_name_def)
  ultimately show ?thesis using chain by simp
qed

section \<open>Properties of the worker\<close>

lemma ensureFFmpeg_logs: "calls (snd (ensureFFmpeg eng w)) = calls w \<and> posted (snd (ensureFFmpeg eng w)) = posted w"
  by (simp add: ensureFFmpeg_def split: option.splits)

lemma run_cases:
  "runFFmpegColorKey eng w u fn st =
     (case ensureFFmpeg eng w of
        (Inl err, w1) \<Rightarrow> (Inl err, w1)
      | (Inr ff, w1) \<Rightarrow>
          (case FS_writeFile eng fn u of
             Some err \<Rightarrow> (Inl err, call (WriteFile fn u) w1)
           | None \<Rightarrow>
               (case ff_run eng (ffmpeg_args fn st) of
                  Some err \<Rightarrow> (Inl err, call (Run (ffmpeg_args fn st)) (call (WriteFile fn u) w1))
                | None \<Rightarrow>
                    (case FS_readFile eng ''out.webm'' of Inl err \<Rightarrow> Inl err | Inr out \<Rightarrow> Inr out,
                     call (ReadFile ''out.webm'')
                       (call (Run (ffmpeg_args fn st)) (call (WriteFile fn u) w1))))))"
  by (simp add: runFFmpegColorKey_def Let_def split: prod.splits sum.splits option.splits)


lemma run_calls:
  "\<exists>n. calls (snd (runFFmpegColorKey eng w u fn st)) =
        calls w @ take n [WriteFile fn u, Run (ffmpeg_args fn st), ReadFile ''out.webm'']"
proof -
  have c: "calls (snd (ensureFFmpeg eng w)) = calls w"
    using ensureFFmpeg_logs by simp
  let ?all = "[WriteFile fn u, Run (ffmpeg_args fn st), ReadFile ''out.webm'']"
  have "calls (snd (runFFmpegColorKey eng w u fn st)) = calls w @ take 0 ?all
      \<or> calls (snd (runFFmpegColorKey eng w u fn st)) = calls w @ take 1 ?all
      \<or> calls (snd (runFFmpegColorKey eng w u fn st)) = calls w @ take 2 ?all
      \<or> calls (snd (runFFmpegColorKey eng w u fn st)) = calls w @ take 3 ?all"
    using c by (auto simp: run_cases call_def split: prod.splits sum.splits option.splits)
  then show ?thesis by blast
qed

lemma run_errors:
  assumes "fst (runFFmpegColorKey eng w u fn st) = Inl err"
  shows "fst (ensureFFmpeg eng w) = Inl err \<or> FS_writeFile eng fn u = Some err
     \<or> ff_run eng (ffmpeg_args fn st) = Some err \<or> FS_readFile eng ''out.webm'' = Inl err"
  using assms by (auto simp: run_cases split: prod.splits sum.splits option.splits)

lemma tol_clamped: "tol (st\<lparr>tolerance := Some t\<rparr>) = (if t < 0 then 0 else if 100 < t then 1 else if t = 0 then 1 / 2 else t / 100)"
  by (simp add: tol_def or_number_def)

lemma tol_range: "0 \<le> tol st \<and> tol st \<le> 1"
  by (simp add: tol_def)

text \<open>
  C3 as stated fails: a convert message with tolerance 150 and feather \<open>-4\<close> is answered by
  \<open>convert:ok\<close>, not by an error, and the engine is run with the similarity clamped to 1.
\<close>

theorem out_of_range_is_clamped_counterexample:
  "onmessage working_engine new_worker (convert_message ''a.mp4'' (no_settings\<lparr>tolerance := Some 150, feather := Some (- 4)\<rparr>))
   = \<lparr>ffReady = True,
      calls = [WriteFile ''a.mp4'' [],
               Run [''-i'', ''a.mp4'', ''-vf'', ''colorkey=0x000000:1:0.1'', ''-c:v'', ''libvpx-vp9'',
                    ''-b:v'', ''1.8M'', ''-pix_fmt'', ''yuva420p'', ''-an'', ''out.webm''],
               ReadFile ''out.webm''],
      posted = [ConvertOk [1, 2, 3]]\<rparr>"
  by code_simp

text \<open>
  C3 as the code has it: a tolerance outside \<open>[0, 100]\<close> is clamped (below 0 to similarity 0,
  above 100 to similarity 1), the similarity always lies in \<open>[0, 1]\<close>, and the mapping signals
  no error of its own: an error of a conversion is one that a call on the engine threw.
\<close>

theorem out_of_range_is_clamped:
  "(t < 0 \<or> 100 < t \<longrightarrow> tol (st\<lparr>tolerance := Some t\<rparr>) = (if t < 0 then 0 else 1))
   \<and> 0 \<le> tol st \<and> tol st \<le> 1
   \<and> (fst (runFFmpegColorKey eng w u fn st) = Inl err \<longrightarrow>
        fst (ensureFFmpeg eng w) = Inl err \<or> FS_writeFile eng fn u = Some err
          \<or> ff_run eng (ffmpeg_args fn st) = Some err \<or> FS_readFile eng ''out.webm'' = Inl err)"
  using run_errors [of eng w u fn st err] tol_range [of st]
  by (simp add: tol_clamped)

theorem out_of_range_is_clamped_witness:
  "100 < (150 :: rat)
   \<and> tol (no_settings\<lparr>tolerance := Some 150\<rparr>) = 1
   \<and> fst (runFFmpegColorKey offline_engine new_worker [] ''a.mp4'' no_settings)
       = Inl (ErrorObj ''NetworkError'' ''Failed to load script'')
   \<and> fst (ensureFFmpeg offline_engine new_worker) = Inl (ErrorObj ''NetworkError'' ''Failed to load script'')"
proof -
  have h1: "100 < (150 :: rat)" by simp
  have h2: "fst (runFFmpegColorKey offline_engine new_worker [] ''a.mp4'' no_settings)
       = Inl (ErrorObj ''NetworkError'' ''Failed to load script'')"
    by code_simp
  have h3: "fst (ensureFFmpeg offline_engine new_worker) = Inl (ErrorObj ''NetworkError'' ''Failed to load script'')"
    by code_simp
  from out_of_range_is_clamped [where t = 150 and st = no_settings and fn = "''a.mp4''"
      and eng = offline_engine and w = new_worker and u = "[]"
      and err = "ErrorObj ''NetworkError'' ''Failed to load script''"] h1 h2 h3
  show ?thesis by simp
qed

text \<open>
  C8. The argument list handed to \<open>ff.run\<close> is a function of the file name and the settings
  alone: two calls with the same file name and settings, on any two engines, worker states
  and input buffers, run the engine (when they reach it) with the same arguments, those of
  \<open>ffmpeg_args\<close>. The pattern of \<open>hexToRgbObj\<close> has no \<open>g\<close> flag, so \<open>exec\<close> keeps no state either.
\<close>

theorem mapper_is_deterministic:
  assumes "Run a1 \<in> set (drop (length (calls w1)) (calls (snd (runFFmpegColorKey eng1 w1 u1 fn st))))"
    and "Run a2 \<in> set (drop (length (calls w2)) (calls (snd (runFFmpegColorKey eng2 w2 u2 fn st))))"
  shows "a1 = a2 \<and> a1 = ffmpeg_args fn st"
proof -
  have one: "a = ffmpeg_args fn st"
    if "Run a \<in> set (drop (length (calls w)) (calls (snd (runFFmpegColorKey eng w u fn st))))"
    for a eng w u
  proof -
    from run_calls [of eng w u fn st] obtain n where
      "calls (snd (runFFmpegColorKey eng w u fn st)) =
         calls w @ take n [WriteFile fn u, Run (ffmpeg_args fn st), ReadFile ''out.webm'']"
      by blast
    with that have "Run a \<in> set (take n [WriteFile fn u, Run (ffmpeg_args fn st), ReadFile ''out.webm''])"
      by simp
    then have "Run a \<in> set [WriteFile fn u, Run (ffmpeg_args fn st), ReadFile ''out.webm'']"
      by (rule in_set_takeD)
    then show ?thesis by simp
  qed
  from one [OF assms(1)] one [OF assms(2)] show ?thesis by simp
qed

theorem mapper_is_deterministic_witness:
  "Run (ffmpeg_args ''a.mp4'' initial_convertOptions)
     \<in> set (drop (length (calls new_worker))
          (calls (snd (runFFmpegColorKey working_engine new_worker [] ''a.mp4'' initial_convertOptions))))
   \<and> Run (ffmpeg_args ''a.mp4'' initial_convertOptions)
     \<in> set (drop (length (calls (new_worker\<lparr>ffReady := True, calls := [ReadFile ''old.webm'']\<rparr>)))
          (calls (snd (runFFmpegColorKey unreadable_engine
             (new_worker\<lparr>ffReady := True, calls := [ReadFile ''old.webm'']\<rparr>) [7, 7] ''a.mp4'' initial_convertOptions))))
   \<and> ffmpeg_args ''a.mp4'' initial_convertOptions
       = [''-i'', ''a.mp4'', ''-vf'', ''colorkey=0x000000:0.1:0.1'', ''-c:v'', ''libvpx-vp9'',
          ''-b:v'', ''1.8M'', ''-pix_fmt'', ''yuva420p'', ''-an'', ''out.webm'']"
proof -
  have h1: "Run (ffmpeg_args ''a.mp4'' initial_convertOptions)
     \<in> set (drop (length (calls new_worker))
          (calls (snd (runFFmpegColorKey working_engine new_worker [] ''a.mp4'' initial_convertOptions))))"
    by (simp add: run_cases ensureFFmpeg_def working_engine_def new_worker_def call_def)
  have h2: "Run (ffmpeg_args ''a.mp4'' initial_convertOptions)
     \<in> set (drop (length (calls (new_worker\<lparr>ffReady := True, calls := [ReadFile ''old.webm'']\<rparr>)))
          (calls (snd (runFFmpegColorKey unreadable_engine
             (new_worker\<lparr>ffReady := True, calls := [ReadFile ''old.webm'']\<rparr>) [7, 7] ''a.mp4'' initial_convertOptions))))"
    by (simp add: run_cases ensureFFmpeg_def unreadable_engine_def working_engine_def new_worker_def call_def)
  have h3: "ffmpeg_args ''a.mp4'' initial_convertOptions
       = [''-i'', ''a.mp4'', ''-vf'', ''colorkey=0x000000:0.1:0.1'', ''-c:v'', ''libvpx-vp9'',
          ''-b:v'', ''1.8M'', ''-pix_fmt'', ''yuva420p'', ''-an'', ''out.webm'']"
    by code_simp
  from mapper_is_deterministic [OF h1 h2] h1 h2 h3 show ?thesis by simp
qed





section \<open>Properties of the client\<close>

lemma promise_all_values: "promise_all xs = Inr vs \<Longrightarrow> xs = map Inr vs"
  by (induction xs arbitrary: vs) (auto split: sum.splits)

lemma promise_all_fails: "isl (promise_all xs) \<longleftrightarrow> (\<exists>x \<in> set xs. isl x)"
  by (induction xs) (auto split: sum.splits)

lemma promise_all_succeeds:
  "(\<forall>x \<in> set xs. \<not> isl x) \<Longrightarrow> \<exists>vs. promise_all xs = Inr vs \<and> length vs = length xs"
  by (induction xs) (auto split: sum.splits)

lemma statusResults_values:
  "statusResults srv ids = Inr rs \<Longrightarrow> map srv ids = map Inr rs"
  unfolding statusResults_def by (rule promise_all_values)

lemma poll_length: "length (pollTaskStatus srv files prevFiles) = length prevFiles"
  by (simp add: pollTaskStatus_def split: sum.splits)

lemma poll_fails:
  assumes "f \<in> set (activeTasks files)" "isl (srv (or_string (taskId f) []))"
  shows "pollTaskStatus srv files prevFiles = prevFiles"
proof -
  from assms have "isl (statusResults srv (map (\<lambda>f. or_string (taskId f) []) (activeTasks files)))"
    unfolding statusResults_def promise_all_fails by auto
  then show ?thesis
    by (auto simp: pollTaskStatus_def split: sum.splits)
qed

text \<open>Every entry of a successful batch is the response to one of the identifiers asked for.\<close>

lemma result_is_response:
  assumes "statusResults srv ids = Inr rs" "x \<in> set rs"
  shows "\<exists>t \<in> set ids. srv t = Inr x"
proof -
  from assms(1) have "map srv ids = map Inr rs" by (rule statusResults_values)
  moreover from assms(2) have "Inr x \<in> set (map Inr rs)" by simp
  ultimately have "Inr x \<in> set (map srv ids)" by simp
  then show ?thesis by auto
qed

lemma response_in_results:
  assumes "statusResults srv ids = Inr rs" "t \<in> set ids"
  shows "\<exists>x \<in> set rs. srv t = Inr x"
proof -
  from assms(1) have "map srv ids = map Inr rs" by (rule statusResults_values)
  moreover from assms(2) have "srv t \<in> set (map srv ids)" by simp
  ultimately have "srv t \<in> set (map Inr rs)" by simp
  then show ?thesis by auto
qed

lemma active_id:
  "f \<in> set (activeTasks files) \<Longrightarrow> taskId f = Some (or_string (taskId f) []) \<and> f \<in> set files"
  by (auto simp: activeTasks_def or_string_def split: option.splits)

lemma inactive_unchanged:
  assumes echo: "\<forall>t x. srv t = Inr x \<longrightarrow> info_taskId x = t"
    and res: "statusResults srv (map (\<lambda>f. or_string (taskId f) []) (activeTasks files)) = Inr rs"
    and other: "\<forall>f' \<in> set (activeTasks files). taskId f' \<noteq> taskId f"
  shows "update_file rs f = f"
proof -
  have "find (\<lambda>s. Some (info_taskId s) = taskId f) rs = None"
  proof (rule ccontr)
    assume "find (\<lambda>s. Some (info_taskId s) = taskId f) rs \<noteq> None"
    then obtain x where x: "x \<in> set rs" "Some (info_taskId x) = taskId f"
      by (auto simp: find_None_iff)
    from result_is_response [OF res x(1)] obtain f' where
      f': "f' \<in> set (activeTasks files)" "srv (or_string (taskId f') []) = Inr x"
      by auto
    with echo have "info_taskId x = or_string (taskId f') []" by blast
    with active_id [OF f'(1)] x(2) have "taskId f' = taskId f" by metis
    with other f'(1) show False by blast
  qed
  then show ?thesis by (simp add: update_file_def)
qed

lemma active_takes_report:
  assumes echo: "\<forall>t x. srv t = Inr x \<longrightarrow> info_taskId x = t"
    and res: "statusResults srv (map (\<lambda>f. or_string (taskId f) []) (activeTasks files)) = Inr rs"
    and act: "f \<in> set (activeTasks files)"
    and rep: "srv (or_string (taskId f) []) = Inr info"
  shows "status (update_file rs f) = info_status info"
proof -
  define t where "t = or_string (taskId f) []"
  from act have tid: "taskId f = Some t"
    unfolding t_def using active_id by blast
  from act have "t \<in> set (map (\<lambda>f. or_string (taskId f) []) (activeTasks files))"
    unfolding t_def by simp
  from response_in_results [OF res this] rep have mem: "info \<in> set rs"
    unfolding t_def by simp
  from echo rep have "info_taskId info = t"
    unfolding t_def by blast
  with mem have "\<exists>x \<in> set rs. Some (info_taskId x) = Some t" by blast
  then obtain x where fx: "find (\<lambda>s. Some (info_taskId s) = Some t) rs = Some x"
    by (cases "find (\<lambda>s. Some (info_taskId s) = Some t) rs") (auto simp: find_None_iff)
  then have x: "x \<in> set rs" "info_taskId x = t"
    by (auto simp: find_Some_iff)
  from result_is_response [OF res x(1)] obtain t' where t': "srv t' = Inr x" by auto
  with echo have "info_taskId x = t'" by blast
  with x(2) have "t' = t" by simp
  with t' rep have "x = info" unfolding t_def by simp
  with fx tid show ?thesis by (simp add: update_file_def)
qed

lemma start_sets_running:
  assumes "files \<noteq> []"
    and "convertFiles' (map (\<lambda>f. fileId (file_info f)) files) opts = Inr taskIds"
  shows "list_all (\<lambda>f. status f = RUNNING) (handleStartConvert convertFiles' opts files prevFiles)"
  using assms
  by (auto simp: handleStartConvert_def Let_def list_all_iff)

lemma start_fails:
  assumes "isl (convertFiles' (map (\<lambda>f. fileId (file_info f)) files) opts)"
  shows "handleStartConvert convertFiles' opts files prevFiles = prevFiles"
  using assms
  by (auto simp: handleStartConvert_def Let_def split: sum.splits)

lemma active_iff:
  "f \<in> set (activeTasks files) \<longleftrightarrow>
     f \<in> set files \<and> (\<exists>t. taskId f = Some t \<and> t \<noteq> []) \<and> (status f = RUNNING \<or> status f = PENDING)"
  by (auto simp: activeTasks_def split: option.splits)

text \<open>
  The answers of a poll are applied to the state at the time they arrive: a poll that started
  while the file was \<open>RUNNING\<close> and is answered after the file became \<open>SUCCESS\<close> overwrites that state.
\<close>

lemma stale_answer_overwrites:
  "map status (pollTaskStatus reports_pending [file_with_task ''t1'' RUNNING] [file_with_task ''t1'' SUCCESS])
     = [PENDING]"
  by code_simp

text \<open>
  C5 as stated fails: convert start puts the file of a new task in \<open>RUNNING\<close>, and the next poll,
  answered by a server on which the task is still queued, puts it back in \<open>PENDING\<close>. Each
  update is applied to the state it started from.
\<close>

theorem status_order_counterexample:
  "map taskId (handleStartConvert accepts_all initial_convertOptions
        [uploaded_state example_file] [uploaded_state example_file])
     = [Some ''task-f1'']
   \<and> map status (handleStartConvert accepts_all initial_convertOptions
        [uploaded_state example_file] [uploaded_state example_file])
     = [RUNNING]
   \<and> map taskId (pollTaskStatus reports_pending
        (handleStartConvert accepts_all initial_convertOptions
           [uploaded_state example_file] [uploaded_state example_file])
        (handleStartConvert accepts_all initial_convertOptions
           [uploaded_state example_file] [uploaded_state example_file]))
     = [Some ''task-f1'']
   \<and> map status (pollTaskStatus reports_pending
        (handleStartConvert accepts_all initial_convertOptions
           [uploaded_state example_file] [uploaded_state example_file])
        (handleStartConvert accepts_all initial_convertOptions
           [uploaded_state example_file] [uploaded_state example_file]))
     = [PENDING]
   \<and> \<not> follows_order
        (map status (handleStartConvert accepts_all initial_convertOptions
           [uploaded_state example_file] [uploaded_state example_file])
         @ map status (pollTaskStatus reports_pending
             (handleStartConvert accepts_all initial_convertOptions
                [uploaded_state example_file] [uploaded_state example_file])
             (handleStartConvert accepts_all initial_convertOptions
                [uploaded_state example_file] [uploaded_state example_file])))"
  by code_simp

text \<open>
  C5 as the code has it. The client does not order the states itself. Convert start puts every
  file in \<open>RUNNING\<close>. When the answers of a poll are applied to the state the poll started from
  (no other update came in between), a file that has a task identifier and is in \<open>PENDING\<close> or
  \<open>RUNNING\<close> takes the status the server reports for that identifier, whatever that status is,
  and a file in \<open>SUCCESS\<close> or \<open>FAILED\<close> is left as it is. This is for a server whose responses carry
  the identifier they were asked for, and for the last part a file whose task identifier no
  other file has.
\<close>

theorem client_follows_reports:
  assumes echo: "\<forall>t x. srv t = Inr x \<longrightarrow> info_taskId x = t"
  shows "(files \<noteq> [] \<and> convertFiles' (map (\<lambda>f. fileId (file_info f)) files) opts = Inr taskIds \<longrightarrow>
            list_all (\<lambda>f. status f = RUNNING) (handleStartConvert convertFiles' opts files prevFiles))
     \<and> (prevFiles = files \<and> i < length files \<and> terminal (status (files ! i))
           \<and> (\<forall>k < length files. k \<noteq> i \<longrightarrow> taskId (files ! k) \<noteq> taskId (files ! i)) \<longrightarrow>
         pollTaskStatus srv files prevFiles ! i = files ! i)
     \<and> (prevFiles = files \<and> j < length files
           \<and> taskId (files ! j) = Some t \<and> t \<noteq> []
           \<and> (status (files ! j) = RUNNING \<or> status (files ! j) = PENDING)
           \<and> (\<forall>f \<in> set files. \<forall>t'. taskId f = Some t' \<and> t' \<noteq> []
                 \<and> (status f = RUNNING \<or> status f = PENDING) \<longrightarrow> \<not> isl (srv t'))
           \<and> srv t = Inr info \<longrightarrow>
         status (pollTaskStatus srv files prevFiles ! j) = info_status info)"
proof (intro conjI impI)
  assume "files \<noteq> [] \<and> convertFiles' (map (\<lambda>f. fileId (file_info f)) files) opts = Inr taskIds"
  then show "list_all (\<lambda>f. status f = RUNNING) (handleStartConvert convertFiles' opts files prevFiles)"
    using start_sets_running by blast
next
  assume h: "prevFiles = files \<and> i < length files \<and> terminal (status (files ! i))
           \<and> (\<forall>k < length files. k \<noteq> i \<longrightarrow> taskId (files ! k) \<noteq> taskId (files ! i))"
  have other: "\<forall>f' \<in> set (activeTasks files). taskId f' \<noteq> taskId (files ! i)"
  proof
    fix f' assume a: "f' \<in> set (activeTasks files)"
    then have "f' \<in> set files" and st: "status f' = RUNNING \<or> status f' = PENDING"
      by (auto simp: activeTasks_def)
    then obtain k where k: "k < length files" "files ! k = f'"
      by (auto simp: in_set_conv_nth)
    with st h have "k \<noteq> i" by (auto simp: terminal_def)
    with h k show "taskId f' \<noteq> taskId (files ! i)" by auto
  qed
  show "pollTaskStatus srv files prevFiles ! i = files ! i"
  proof (cases "statusResults srv (map (\<lambda>f. or_string (taskId f) []) (activeTasks files))")
    case (Inl err)
    with h show ?thesis by (simp add: pollTaskStatus_def)
  next
    case (Inr rs)
    from inactive_unchanged [OF echo Inr other] h Inr show ?thesis
      by (simp add: pollTaskStatus_def)
  qed
next
  assume h: "prevFiles = files \<and> j < length files
           \<and> taskId (files ! j) = Some t \<and> t \<noteq> []
           \<and> (status (files ! j) = RUNNING \<or> status (files ! j) = PENDING)
           \<and> (\<forall>f \<in> set files. \<forall>t'. taskId f = Some t' \<and> t' \<noteq> []
                 \<and> (status f = RUNNING \<or> status f = PENDING) \<longrightarrow> \<not> isl (srv t'))
           \<and> srv t = Inr info"
  then have act: "files ! j \<in> set (activeTasks files)"
    unfolding active_iff by simp
  from h have idt: "or_string (taskId (files ! j)) [] = t"
    by (simp add: or_string_def)
  have "\<not> isl (srv (or_string (taskId f) []))" if "f \<in> set (activeTasks files)" for f
  proof -
    from that obtain t' where "f \<in> set files" "taskId f = Some t'" "t' \<noteq> []"
      "status f = RUNNING \<or> status f = PENDING"
      unfolding active_iff by blast
    with h show ?thesis by (simp add: or_string_def)
  qed
  then have "\<forall>x \<in> set (map srv (map (\<lambda>f. or_string (taskId f) []) (activeTasks files))). \<not> isl x"
    by auto
  from promise_all_succeeds [OF this] obtain rs where
    rs: "statusResults srv (map (\<lambda>f. or_string (taskId f) []) (activeTasks files)) = Inr rs"
    unfolding statusResults_def by blast
  from act have ne: "activeTasks files \<noteq> []" by auto
  from h idt have rep: "srv (or_string (taskId (files ! j)) []) = Inr info" by simp
  from active_takes_report [OF echo rs act rep]
  have "status (update_file rs (files ! j)) = info_status info" .
  with h rs ne show "status (pollTaskStatus srv files prevFiles ! j) = info_status info"
    by (simp add: pollTaskStatus_def)
qed

theorem client_follows_reports_witness:
  "terminal (status ([file_with_task ''t0'' FAILED, file_with_task ''t1'' RUNNING] ! 0))
   \<and> pollTaskStatus knows_t1_t2 [file_with_task ''t0'' FAILED, file_with_task ''t1'' RUNNING]
        [file_with_task ''t0'' FAILED, file_with_task ''t1'' RUNNING] ! 0
       = file_with_task ''t0'' FAILED
   \<and> status (pollTaskStatus knows_t1_t2 [file_with_task ''t0'' FAILED, file_with_task ''t1'' RUNNING]
        [file_with_task ''t0'' FAILED, file_with_task ''t1'' RUNNING] ! 1)
       = SUCCESS
   \<and> list_all (\<lambda>f. status f = RUNNING)
       (handleStartConvert accepts_all initial_convertOptions
          [file_with_task ''t0'' FAILED, file_with_task ''t1'' RUNNING]
          [file_with_task ''t0'' FAILED, file_with_task ''t1'' RUNNING])"
proof -
  let ?files = "[file_with_task ''t0'' FAILED, file_with_task ''t1'' RUNNING]"
  let ?info = "\<lparr>info_taskId = ''t1'', info_status = SUCCESS, info_progress = Some 100,
                info_resultUrl = Some ''/results/t1'', info_errorCode = None,
                info_errorMessage = None\<rparr>"
  have echo: "\<forall>t x. knows_t1_t2 t = Inr x \<longrightarrow> info_taskId x = t"
    by (auto simp: knows_t1_t2_def)
  have h1: "?files \<noteq> [] \<and> accepts_all (map (\<lambda>f. fileId (file_info f)) ?files) initial_convertOptions
      = Inr [''task-f1'', ''task-f1'']"
    by (simp add: accepts_all_def file_with_task_def uploaded_state_def example_file_def)
  have h2: "?files = ?files \<and> 0 < length ?files \<and> terminal (status (?files ! 0))
           \<and> (\<forall>k < length ?files. k \<noteq> 0 \<longrightarrow> taskId (?files ! k) \<noteq> taskId (?files ! 0))"
    by (auto simp: terminal_def file_with_task_def less_Suc_eq)
  have h3: "?files = ?files \<and> 1 < length ?files
           \<and> taskId (?files ! 1) = Some ''t1'' \<and> ''t1'' \<noteq> []
           \<and> (status (?files ! 1) = RUNNING \<or> status (?files ! 1) = PENDING)
           \<and> (\<forall>f \<in> set ?files. \<forall>t'. taskId f = Some t' \<and> t' \<noteq> []
                 \<and> (status f = RUNNING \<or> status f = PENDING) \<longrightarrow> \<not> isl (knows_t1_t2 t'))
           \<and> knows_t1_t2 ''t1'' = Inr ?info"
    by (simp add: file_with_task_def knows_t1_t2_def)
  from client_follows_reports [OF echo, where convertFiles' = accepts_all and files = ?files
      and opts = initial_convertOptions and taskIds = "[''task-f1'', ''task-f1'']"
      and prevFiles = ?files and i = 0 and j = 1 and t = "''t1''" and info = ?info] h1 h2 h3
  show ?thesis by simp
qed

text \<open>
  C6 as stated fails: with two known identifiers and one unknown, the batch is a failure, not
  two entries, and the poll leaves the two known files in \<open>RUNNING\<close> although the server has both
  as \<open>SUCCESS\<close> (it reports them so when they are polled alone).
\<close>

theorem partial_batch_counterexample:
  "statusResults knows_t1_t2 [''t1'', ''t2'', ''t3''] = Inl (ErrorObj ''Error'' ''NOT_FOUND'')
   \<and> map status (pollTaskStatus knows_t1_t2
        [file_with_task ''t1'' RUNNING, file_with_task ''t2'' RUNNING, file_with_task ''t3'' RUNNING]
        [file_with_task ''t1'' RUNNING, file_with_task ''t2'' RUNNING, file_with_task ''t3'' RUNNING])
       = [RUNNING, RUNNING, RUNNING]
   \<and> map status (pollTaskStatus knows_t1_t2
        [file_with_task ''t1'' RUNNING, file_with_task ''t2'' RUNNING]
        [file_with_task ''t1'' RUNNING, file_with_task ''t2'' RUNNING])
       = [SUCCESS, SUCCESS]"
  by code_simp

text \<open>
  C6 as the code has it: the batch of status requests is all or nothing. If the request fails
  for one identifier the batch fails, and a poll whose batch fails changes no file; if every
  request succeeds the batch has one entry per identifier.
\<close>

theorem poll_is_all_or_nothing:
  "((\<exists>t \<in> set ids. isl (srv t)) \<longrightarrow> isl (statusResults srv ids))
   \<and> ((\<forall>t \<in> set ids'. \<not> isl (srv t)) \<longrightarrow>
        (\<exists>rs. statusResults srv ids' = Inr rs \<and> length rs = length ids'))
   \<and> ((\<exists>f \<in> set (activeTasks files). isl (srv (or_string (taskId f) []))) \<longrightarrow>
        pollTaskStatus srv files prevFiles = prevFiles)"
proof (intro conjI impI)
  assume "\<exists>t \<in> set ids. isl (srv t)"
  then show "isl (statusResults srv ids)"
    unfolding statusResults_def promise_all_fails by auto
next
  assume "\<forall>t \<in> set ids'. \<not> isl (srv t)"
  then have "\<forall>x \<in> set (map srv ids'). \<not> isl x" by auto
  from promise_all_succeeds [OF this]
  show "\<exists>rs. statusResults srv ids' = Inr rs \<and> length rs = length ids'"
    unfolding statusResults_def by simp
next
  assume "\<exists>f \<in> set (activeTasks files). isl (srv (or_string (taskId f) []))"
  then show "pollTaskStatus srv files prevFiles = prevFiles"
    using poll_fails by blast
qed

theorem poll_is_all_or_nothing_witness:
  "isl (statusResults knows_t1_t2 [''t1'', ''t2'', ''t3''])
   \<and> (\<exists>rs. statusResults knows_t1_t2 [''t1'', ''t2''] = Inr rs \<and> length rs = 2)
   \<and> pollTaskStatus knows_t1_t2
        [file_with_task ''t1'' RUNNING, file_with_task ''t2'' RUNNING, file_with_task ''t3'' RUNNING]
        [file_with_task ''t1'' RUNNING, file_with_task ''t2'' RUNNING, file_with_task ''t3'' RUNNING]
       = [file_with_task ''t1'' RUNNING, file_with_task ''t2'' RUNNING, file_with_task ''t3'' RUNNING]"
proof -
  let ?files = "[file_with_task ''t1'' RUNNING, file_with_task ''t2'' RUNNING, file_with_task ''t3'' RUNNING]"
  have h1: "\<exists>t \<in> set [''t1'', ''t2'', ''t3'']. isl (knows_t1_t2 t)"
    by (simp add: knows_t1_t2_def)
  have h2: "\<forall>t \<in> set [''t1'', ''t2'']. \<not> isl (knows_t1_t2 t)"
    by (simp add: knows_t1_t2_def)
  have "file_with_task ''t3'' RUNNING \<in> set (activeTasks ?files)"
    by (simp add: activeTasks_def file_with_task_def)
  moreover have "isl (knows_t1_t2 (or_string (taskId (file_with_task ''t3'' RUNNING)) []))"
    by (simp add: knows_t1_t2_def file_with_task_def or_string_def)
  ultimately have h3: "\<exists>f \<in> set (activeTasks ?files). isl (knows_t1_t2 (or_string (taskId f) []))"
    by blast
  from poll_is_all_or_nothing [where ids = "[''t1'', ''t2'', ''t3'']" and srv = knows_t1_t2
      and ids' = "[''t1'', ''t2'']" and files = ?files and prevFiles = ?files] h1 h2 h3
  show ?thesis by (simp add: numeral_2_eq_2)
qed

section \<open>Properties of the convert operation\<close>

text \<open>
  C7. A convert submission of more than 10 file identifiers fails with \<open>LIMIT_EXCEEDED_COUNT\<close>
  and leaves the task store as it was; one of at most 10 does not fail with that code; and
  when the client submits more than 10 files to this server, no file gets a task.
\<close>

theorem convert_rejects_more_than_ten:
  "(10 < length fileIds \<longrightarrow> convert uploaded store fileIds opts = (Inl LIMIT_EXCEEDED_COUNT, store))
   \<and> (length fileIds' \<le> 10 \<longrightarrow> fst (convert uploaded store fileIds' opts) \<noteq> Inl LIMIT_EXCEEDED_COUNT)
   \<and> (10 < length files \<longrightarrow>
        handleStartConvert (convertFiles uploaded store) opts files prevFiles = prevFiles)"
proof (intro conjI impI)
  assume "10 < length fileIds"
  then show "convert uploaded store fileIds opts = (Inl LIMIT_EXCEEDED_COUNT, store)"
    by (simp add: convert_def max_batch_def)
next
  assume "length fileIds' \<le> 10"
  then show "fst (convert uploaded store fileIds' opts) \<noteq> Inl LIMIT_EXCEEDED_COUNT"
    by (simp add: convert_def max_batch_def)
next
  assume "10 < length files"
  then have "isl (convertFiles uploaded store (map (\<lambda>f. fileId (file_info f)) files) opts)"
    by (simp add: convertFiles_def convert_def max_batch_def)
  then show "handleStartConvert (convertFiles uploaded store) opts files prevFiles = prevFiles"
    by (rule start_fails)
qed

theorem convert_rejects_more_than_ten_witness:
  "10 < length (replicate 11 ''f1'')
   \<and> convert [''f1''] [] (replicate 11 ''f1'') initial_convertOptions = (Inl LIMIT_EXCEEDED_COUNT, [])
   \<and> length [''f1''] \<le> 10
   \<and> fst (convert [''f1''] [] [''f1''] initial_convertOptions) = Inr [''task-f1'']
   \<and> handleStartConvert (convertFiles [''f1''] []) initial_convertOptions
        (replicate 11 (uploaded_state example_file)) (replicate 11 (uploaded_state example_file))
       = replicate 11 (uploaded_state example_file)"
proof -
  have h1: "10 < length (replicate 11 ''f1'')" by simp
  have h2: "length [''f1''] \<le> 10" by simp
  have h3: "10 < length (replicate 11 (uploaded_state example_file))" by simp
  have ok: "fst (convert [''f1''] [] [''f1''] initial_convertOptions) = Inr [''task-f1'']"
    by (simp add: convert_def max_batch_def new_task_def)
  from convert_rejects_more_than_ten [where fileIds = "replicate 11 ''f1''" and uploaded = "[''f1'']"
      and store = "[]" and opts = initial_convertOptions and fileIds' = "[''f1'']"
      and files = "replicate 11 (uploaded_state example_file)"
      and prevFiles = "replicate 11 (uploaded_state example_file)"] h1 h2 h3 ok
  show ?thesis by simp
qed

end
